theory Spec2Isabelle
  imports Main "HOL-Library.AList" "HOL-Library.Sublist"
begin

section \<open>Python values and their builtin renderings\<close>

text \<open>
  The modules under \<^verbatim>\<open>pyincus/models\<close> build filter expressions over model fields
  (\<^verbatim>\<open>fields.py\<close>, with an older variant in \<^verbatim>\<open>general.py\<close>) and rewrite declared
  classes into model types (\<^verbatim>\<open>base.py\<close>). A Python \<^verbatim>\<open>str\<close> is modelled as a
  \<^typ>\<open>string\<close> whose characters are the code points below 256, an \<^verbatim>\<open>int\<close> as
  \<^typ>\<open>int\<close>, a dict as an association list in insertion order.
\<close>

text \<open>Modelled from the spec: the exception \<^verbatim>\<open>PyIncusException\<close> of \<^verbatim>\<open>pyincus.exceptions\<close>,
  which is not among the sources: a raisable domain error that carries a message. The
  other two constructors are the builtin exceptions that the code can raise.\<close>

datatype error = PyIncusException string | TypeError | KeyError

text \<open>
  A \<^verbatim>\<open>float\<close> is given by what its \<^verbatim>\<open>repr\<close> is computed from: an infinity, a NaN, or the
  sign and the shortest decimal expansion that reads back to it, \<open>Finite negative m e\<close>
  for the number \<open>m\<close> written by its significant digits times ten to the \<open>e\<close>
  (2.5 is \<open>Finite False 25 (- 1)\<close>, 0.0 is \<open>Finite False 0 0\<close>).
\<close>

datatype pyfloat = Finite bool nat int | Infinity bool | NaN

datatype scalar = PyNone | PyBool bool | PyInt int | PyFloat pyfloat | PyStr string

definition squote :: char where
  "squote = CHR 0x27"

definition dquote :: char where
  "dquote = CHR 0x22"

definition backslash :: char where
  "backslash = CHR 0x5C"

definition digit_char :: "nat \<Rightarrow> char" where
  "digit_char n = ''0123456789abcdef'' ! (n mod 16)"

text \<open>\<^verbatim>\<open>str.isprintable\<close> on one code point below 256: the controls, the no-break
  space and the soft hyphen are not printable.\<close>

definition isprintable :: "char \<Rightarrow> bool" where
  "isprintable c =
     (let n = (of_char c :: nat)
      in (32 \<le> n \<and> n < 127) \<or> (161 \<le> n \<and> n \<noteq> 173))"

text \<open>The builtin \<^verbatim>\<open>repr\<close> of a \<^verbatim>\<open>str\<close>: single quotes, unless the text holds a
  single quote and no double quote; the quote in use and the backslash are escaped,
  and so is every character that is not printable.\<close>

definition repr_quote :: "string \<Rightarrow> char" where
  "repr_quote s = (if squote \<in> set s \<and> dquote \<notin> set s then dquote else squote)"

definition repr_char :: "char \<Rightarrow> char \<Rightarrow> string" where
  "repr_char q c =
     (if c = q \<or> c = backslash then [backslash, c]
      else if c = CHR 0x09 then [backslash, CHR ''t'']
      else if c = CHR 0x0A then [backslash, CHR ''n'']
      else if c = CHR 0x0D then [backslash, CHR ''r'']
      else if \<not> isprintable c
        then [backslash, CHR ''x'', digit_char (of_char c div 16), digit_char (of_char c mod 16)]
      else [c])"

definition repr_str :: "string \<Rightarrow> string" where
  "repr_str s = (let q = repr_quote s in q # concat (map (repr_char q) s) @ [q])"

text \<open>A text of printable characters with no single quote and no backslash: the texts
  that \<^verbatim>\<open>repr\<close> only wraps in single quotes.\<close>

definition plain_text :: "string \<Rightarrow> bool" where
  "plain_text s = list_all (\<lambda>c. isprintable c \<and> c \<noteq> squote \<and> c \<noteq> backslash) s"

function dec_nat :: "nat \<Rightarrow> string" where
  "dec_nat n = (if n < 10 then [digit_char n] else dec_nat (n div 10) @ [digit_char (n mod 10)])"
  by pat_completeness auto
termination
  by (relation "measure id") auto

declare dec_nat.simps [simp del]

text \<open>The number that a decimal digit stands for, to read a numeral back.\<close>

definition digit_value :: "char \<Rightarrow> nat" where
  "digit_value c = of_char c - 48"

definition repr_int :: "int \<Rightarrow> string" where
  "repr_int i = (if i < 0 then CHR ''-'' # dec_nat (nat (- i)) else dec_nat (nat i))"

text \<open>
  The builtin \<^verbatim>\<open>repr\<close> of a \<^verbatim>\<open>float\<close>, from the digits \<open>ds\<close> and the position \<open>decpt\<close> of
  the decimal point after the first digits: with an exponent of at least two digits
  when \<open>decpt\<close> is at most -4 or above 16, and else in positional notation, with
  \<^verbatim>\<open>.0\<close> after a whole number.
\<close>

definition pad2 :: "string \<Rightarrow> string" where
  "pad2 s = (if length s < 2 then CHR ''0'' # s else s)"

definition repr_float_digits :: "string \<Rightarrow> int \<Rightarrow> string" where
  "repr_float_digits ds decpt =
     (let n = int (length ds)
      in if decpt \<le> - 4 \<or> 16 < decpt
           then take 1 ds @ (if 1 < n then CHR ''.'' # drop 1 ds else []) @ [CHR ''e'']
                  @ [if decpt - 1 < 0 then CHR ''-'' else CHR ''+'']
                  @ pad2 (dec_nat (nat \<bar>decpt - 1\<bar>))
         else if decpt \<le> 0 then ''0.'' @ replicate (nat (- decpt)) CHR ''0'' @ ds
         else if n \<le> decpt then ds @ replicate (nat (decpt - n)) CHR ''0'' @ ''.0''
         else take (nat decpt) ds @ CHR ''.'' # drop (nat decpt) ds)"

fun repr_float :: "pyfloat \<Rightarrow> string" where
  "repr_float (Finite negative m e) =
     (if negative then [CHR ''-''] else [])
       @ repr_float_digits (dec_nat m) (int (length (dec_nat m)) + e)"
| "repr_float (Infinity negative) = (if negative then ''-inf'' else ''inf'')"
| "repr_float NaN = ''nan''"

fun repr_scalar :: "scalar \<Rightarrow> string" where
  "repr_scalar PyNone = ''None''"
| "repr_scalar (PyBool b) = (if b then ''True'' else ''False'')"
| "repr_scalar (PyInt i) = repr_int i"
| "repr_scalar (PyFloat x) = repr_float x"
| "repr_scalar (PyStr s) = repr_str s"

text \<open>The numbers among the scalars: \<^verbatim>\<open>int\<close>, its subclass \<^verbatim>\<open>bool\<close>, and \<^verbatim>\<open>float\<close>.\<close>

fun is_numeric :: "scalar \<Rightarrow> bool" where
  "is_numeric (PyBool b) = True"
| "is_numeric (PyInt i) = True"
| "is_numeric (PyFloat x) = True"
| "is_numeric PyNone = False"
| "is_numeric (PyStr s) = False"

text \<open>\<^verbatim>\<open>repr\<close> of a list of strings, as the f-string of the missing-fields message
  renders it.\<close>

fun join :: "string \<Rightarrow> string list \<Rightarrow> string" where
  "join sep [] = []"
| "join sep [x] = x"
| "join sep (x # y # ys) = x @ sep @ join sep (y # ys)"

definition repr_str_list :: "string list \<Rightarrow> string" where
  "repr_str_list xs = ''['' @ join '', '' (map repr_str xs) @ '']''"

section \<open>fields.py: field descriptors and filter queries\<close>

text \<open>A type object: its identity and its \<^verbatim>\<open>__name__\<close>.\<close>

datatype pytype = PyType (type_id: nat) (type_name: string)

record ModelField =
  cls :: pytype
  field_name :: string

datatype FilterOperation = NOT | EQUALS | AND | OR | NOT_EQUALS

text \<open>\<^verbatim>\<open>FilterOperation.__str__\<close>: the member's value.\<close>

fun str_FilterOperation :: "FilterOperation \<Rightarrow> string" where
  "str_FilterOperation NOT = ''not''"
| "str_FilterOperation EQUALS = ''eq''"
| "str_FilterOperation AND = ''and''"
| "str_FilterOperation OR = ''or''"
| "str_FilterOperation NOT_EQUALS = ''ne''"

text \<open>
  Modelled from the spec: the sentinel \<^verbatim>\<open>Unset\<close> of \<^verbatim>\<open>pyincus.config\<close>, which is not
  among the sources: a singleton marker, compared by identity and distinct from every
  legitimate value. It is the constructor \<open>Unset\<close> of the values below.

  A filter query holds its three attributes. The first operand is typed
  \<^verbatim>\<open>ModelField | Self\<close>; the second is \<^verbatim>\<open>Any\<close>, here the sentinel, a scalar, a
  descriptor or a query.
\<close>

datatype FilterQuery =
  FilterQuery (first_value: operand) (operation: FilterOperation) (second_value: val)
and operand = Field ModelField | Query FilterQuery
and val = Unset | Scalar scalar | PyField ModelField | PyQuery FilterQuery

definition repr_ModelField :: "ModelField \<Rightarrow> string" where
  "repr_ModelField f = type_name (cls f) @ ''.'' @ field_name f"

definition str_ModelField :: "ModelField \<Rightarrow> string" where
  "str_ModelField f = field_name f"

definition second_value_error :: string where
  "second_value_error =
     ''Second value must always be set if operation isn'' @ [squote] @ ''t '' @ [squote]
       @ ''not'' @ [squote] @ '' and never be set if operation is '' @ [squote] @ ''not''
       @ [squote]"

definition FilterQuery_init :: "operand \<Rightarrow> FilterOperation \<Rightarrow> val \<Rightarrow> error + FilterQuery" where
  "FilterQuery_init first op second =
     (if (second = Unset) \<noteq> (op = NOT) then Inl (PyIncusException second_value_error)
      else Inr (FilterQuery first op second))"

definition ModelField_eq :: "ModelField \<Rightarrow> val \<Rightarrow> error + FilterQuery" where
  "ModelField_eq self other = FilterQuery_init (Field self) EQUALS other"

definition ModelField_ne :: "ModelField \<Rightarrow> val \<Rightarrow> error + FilterQuery" where
  "ModelField_ne self other = FilterQuery_init (Field self) NOT_EQUALS other"

text \<open>\<^verbatim>\<open>FilterQuery._repr_mapping\<close> has no entry for \<^verbatim>\<open>NOT\<close>: the lookup raises.\<close>

fun repr_mapping :: "FilterOperation \<Rightarrow> error + string" where
  "repr_mapping EQUALS = Inr ''==''"
| "repr_mapping AND = Inr ''and''"
| "repr_mapping OR = Inr ''or''"
| "repr_mapping NOT_EQUALS = Inr ''!=''"
| "repr_mapping NOT = Inl KeyError"

fun str_FilterQuery :: "FilterQuery \<Rightarrow> string"
  and str_operand :: "operand \<Rightarrow> string" where
  "str_FilterQuery (FilterQuery first op second) =
     (case second of
        Unset \<Rightarrow> ''not '' @ str_operand first
      | PyQuery q \<Rightarrow> str_operand first @ '' '' @ str_FilterOperation op @ '' '' @ str_FilterQuery q
      | Scalar v \<Rightarrow> str_operand first @ '' '' @ str_FilterOperation op @ '' '' @ repr_scalar v
      | PyField f \<Rightarrow> str_operand first @ '' '' @ str_FilterOperation op @ '' '' @ repr_ModelField f)"
| "str_operand (Field f) = str_ModelField f"
| "str_operand (Query q) = str_FilterQuery q"

fun repr_FilterQuery :: "FilterQuery \<Rightarrow> error + string"
  and repr_operand :: "operand \<Rightarrow> error + string" where
  "repr_FilterQuery (FilterQuery first op second) =
     (case second of
        Unset \<Rightarrow>
          (case repr_operand first of Inl e \<Rightarrow> Inl e | Inr a \<Rightarrow> Inr (''not '' @ a))
      | PyQuery q \<Rightarrow>
          (case repr_operand first of Inl e \<Rightarrow> Inl e | Inr a \<Rightarrow>
          (case repr_mapping op of Inl e \<Rightarrow> Inl e | Inr symbol \<Rightarrow>
          (case repr_FilterQuery q of Inl e \<Rightarrow> Inl e | Inr b \<Rightarrow>
             Inr (join '' '' [a, symbol, b]))))
      | Scalar v \<Rightarrow>
          (case repr_operand first of Inl e \<Rightarrow> Inl e | Inr a \<Rightarrow>
          (case repr_mapping op of Inl e \<Rightarrow> Inl e | Inr symbol \<Rightarrow>
             Inr (join '' '' [a, symbol, repr_scalar v])))
      | PyField f \<Rightarrow>
          (case repr_operand first of Inl e \<Rightarrow> Inl e | Inr a \<Rightarrow>
          (case repr_mapping op of Inl e \<Rightarrow> Inl e | Inr symbol \<Rightarrow>
             Inr (join '' '' [a, symbol, repr_ModelField f]))))"
| "repr_operand (Field f) = Inr (repr_ModelField f)"
| "repr_operand (Query q) = repr_FilterQuery q"



definition FilterQuery_and :: "FilterQuery \<Rightarrow> val \<Rightarrow> error + FilterQuery" where
  "FilterQuery_and self other = FilterQuery_init (Query self) AND other"

definition FilterQuery_or :: "FilterQuery \<Rightarrow> val \<Rightarrow> error + FilterQuery" where
  "FilterQuery_or self other = FilterQuery_init (Query self) OR other"

definition FilterQuery_invert :: "FilterQuery \<Rightarrow> error + FilterQuery" where
  "FilterQuery_invert self = FilterQuery_init (Query self) NOT Unset"

section \<open>general.py: the older variant\<close>

text \<open>
  \<^verbatim>\<open>general.py\<close> declares a second \<^verbatim>\<open>ModelField\<close> and \<^verbatim>\<open>FilterQuery\<close>. Its descriptor
  has a field name only and hands that name, a \<^verbatim>\<open>str\<close>, to the query as first operand;
  its query has the constructor and the two renderings, and no operators.
  The rendering of the sentinel itself, which \<^verbatim>\<open>__repr__\<close> prints for a negation, is
  not in the sources: it is the parameter \<open>unset_repr\<close>.
\<close>

record general_ModelField =
  g_field_name :: string

datatype general_FilterQuery =
  general_FilterQuery (g_first_value: string) (g_operation: FilterOperation)
    (g_second_value: general_val)
and general_val = GUnset | GScalar scalar | GQuery general_FilterQuery

definition general_second_value_error :: string where
  "general_second_value_error =
     ''Second value must always be set if operation isn'' @ [squote] @ ''t '' @ [squote]
       @ ''not'' @ [squote]"

definition general_FilterQuery_init ::
  "string \<Rightarrow> FilterOperation \<Rightarrow> general_val \<Rightarrow> error + general_FilterQuery" where
  "general_FilterQuery_init first op second =
     (if second = GUnset \<and> op \<noteq> NOT then Inl (PyIncusException general_second_value_error)
      else Inr (general_FilterQuery first op second))"

definition general_ModelField_eq ::
  "general_ModelField \<Rightarrow> general_val \<Rightarrow> error + general_FilterQuery" where
  "general_ModelField_eq self other = general_FilterQuery_init (g_field_name self) EQUALS other"

definition general_ModelField_invert :: "general_ModelField \<Rightarrow> error + general_FilterQuery" where
  "general_ModelField_invert self = general_FilterQuery_init (g_field_name self) NOT GUnset"

fun general_repr :: "string \<Rightarrow> general_FilterQuery \<Rightarrow> error + string" where
  "general_repr unset_repr (general_FilterQuery first op second) =
     (case second of
        GUnset \<Rightarrow> Inr (''not '' @ unset_repr)
      | GScalar v \<Rightarrow>
          (case repr_mapping op of Inl e \<Rightarrow> Inl e | Inr symbol \<Rightarrow>
             Inr (join '' '' [repr_str first, repr_str symbol, repr_scalar v]))
      | GQuery q \<Rightarrow>
          (case repr_mapping op of Inl e \<Rightarrow> Inl e | Inr symbol \<Rightarrow>
          (case general_repr unset_repr q of Inl e \<Rightarrow> Inl e | Inr b \<Rightarrow>
             Inr (join '' '' [repr_str first, repr_str symbol, b]))))"

fun general_str :: "string \<Rightarrow> general_FilterQuery \<Rightarrow> error + string" where
  "general_str unset_repr (general_FilterQuery first op second) =
     (case second of
        GUnset \<Rightarrow> Inr (''not '' @ repr_str first)
      | GScalar v \<Rightarrow>
          Inr (join '' '' [repr_str first, repr_str (str_FilterOperation op), repr_scalar v])
      | GQuery q \<Rightarrow>
          (case general_repr unset_repr q of Inl e \<Rightarrow> Inl e | Inr b \<Rightarrow>
             Inr (join '' '' [repr_str first, repr_str (str_FilterOperation op), b])))"

section \<open>base.py: the model builder and the generated constructor\<close>

text \<open>
  The objects a class body, a keyword argument or an instance attribute can hold: a value
  of the expression layer (the sentinel, a scalar, a descriptor, a query), a callable or
  a property (by identity), and the dict that a class body keeps under
  \<^verbatim>\<open>__annotations__\<close> (by its keys, which is all the builder reads of it). A dict of
  attributes is the list of its items in insertion order.
\<close>

datatype pyobj = Value val | PyFunction nat | PyProperty nat | Annotations "string list"

type_synonym dict = "(string \<times> pyobj) list"

text \<open>\<^verbatim>\<open>d | other\<close>, \<^verbatim>\<open>dict(items)\<close> and \<^verbatim>\<open>d.setdefault(k, v)\<close>: a key keeps the place
  of its first insertion and the value of its last.\<close>

definition dict_or :: "dict \<Rightarrow> dict \<Rightarrow> dict" where
  "dict_or d other = fold (\<lambda>(k, v). AList.update k v) other d"

definition dict_of_items :: "(string \<times> pyobj) list \<Rightarrow> dict" where
  "dict_of_items items = fold (\<lambda>(k, v). AList.update k v) items []"

definition setdefault :: "string \<Rightarrow> pyobj \<Rightarrow> dict \<Rightarrow> dict" where
  "setdefault k v d = (case map_of d k of None \<Rightarrow> d @ [(k, v)] | Some _ \<Rightarrow> d)"

definition callable :: "pyobj \<Rightarrow> bool" where
  "callable v = (case v of PyFunction _ \<Rightarrow> True | _ \<Rightarrow> False)"

definition is_property :: "pyobj \<Rightarrow> bool" where
  "is_property v = (case v of PyProperty _ \<Rightarrow> True | _ \<Rightarrow> False)"

definition startswith_underscore :: "string \<Rightarrow> bool" where
  "startswith_underscore attr = (case attr of [] \<Rightarrow> False | c # _ \<Rightarrow> c = CHR ''_'')"

text \<open>The first loop of \<^verbatim>\<open>BaseIncusMeta.__new__\<close>, over \<^verbatim>\<open>attrs.items()\<close>; the state is
  \<^verbatim>\<open>(new_class_model_fields, methods, secret_attributes)\<close>.\<close>

fun classify ::
  "(string \<times> pyobj) list \<Rightarrow> dict \<times> (string \<times> pyobj) list \<times> (string \<times> pyobj) list \<Rightarrow>
     dict \<times> (string \<times> pyobj) list \<times> (string \<times> pyobj) list" where
  "classify [] acc = acc"
| "classify ((attr, value) # rest) (new_class_model_fields, methods, secret_attributes) =
     (if callable value \<or> is_property value
        then classify rest (new_class_model_fields, methods @ [(attr, value)], secret_attributes)
      else if startswith_underscore attr
        then classify rest (new_class_model_fields, methods, secret_attributes @ [(attr, value)])
      else classify rest (AList.update attr value new_class_model_fields, methods,
             secret_attributes))"

text \<open>
  \<^verbatim>\<open>attrs.get('__annotations__', {})\<close>, as the sequence the second loop iterates: the keys
  of the annotations dict, nothing when the entry is absent, the characters of a
  \<^verbatim>\<open>str\<close>; the other objects of this model are not iterable.
\<close>

definition annotation_names :: "dict \<Rightarrow> error + string list" where
  "annotation_names attrs =
     (case map_of attrs ''__annotations__'' of
        None \<Rightarrow> Inr []
      | Some (Annotations keys) \<Rightarrow> Inr keys
      | Some (Value (Scalar (PyStr s))) \<Rightarrow> Inr (map (\<lambda>c. [c]) s)
      | Some _ \<Rightarrow> Inl TypeError)"

text \<open>The second loop; the state is \<^verbatim>\<open>(model_fields, new_class_model_fields)\<close>. The
  descriptor is built with \<^verbatim>\<open>cls\<close>, the first argument of \<^verbatim>\<open>__new__\<close>.\<close>

fun annotated ::
  "pytype \<Rightarrow> string list \<Rightarrow> (string \<times> pyobj) list \<times> dict \<Rightarrow> (string \<times> pyobj) list \<times> dict" where
  "annotated mcs [] acc = acc"
| "annotated mcs (attr # rest) (field_items, new_class_model_fields) =
     (if startswith_underscore attr then annotated mcs rest (field_items, new_class_model_fields)
      else annotated mcs rest
             (field_items @ [(attr, Value (PyField \<lparr>cls = mcs, field_name = attr\<rparr>))],
              setdefault attr (Value Unset) new_class_model_fields))"

text \<open>
  The class that \<^verbatim>\<open>__new__\<close> returns: the name, bases and dict given to \<^verbatim>\<open>type\<close>, the
  mapping stored as \<^verbatim>\<open>_model_fields\<close>, and its \<^verbatim>\<open>__post_init__\<close>: the member of that name
  in its own dict, or, when there is none, the metaclass's \<^verbatim>\<open>_post_init\<close> (\<open>None\<close>).
  Its \<^verbatim>\<open>__init__\<close> is always \<^verbatim>\<open>_init\<close>.
\<close>

record model_class =
  cls_name :: string
  cls_bases :: "pytype list"
  cls_dict :: dict
  cls_post_init :: "pyobj option"
  cls_model_fields :: dict

definition BaseIncusMeta_new ::
  "pytype \<Rightarrow> string \<Rightarrow> pytype list \<Rightarrow> dict \<Rightarrow> error + model_class" where
  "BaseIncusMeta_new mcs name bases attrs =
     (case classify attrs ([], [], []) of
        (new_class_model_fields, methods, secret_attributes) \<Rightarrow>
     (case annotation_names attrs of
        Inl e \<Rightarrow> Inl e
      | Inr names \<Rightarrow>
     (case annotated mcs names ([], new_class_model_fields) of
        (field_items, new_class_model_fields') \<Rightarrow>
          let d = dict_of_items (secret_attributes @ methods @ field_items)
          in Inr \<lparr>cls_name = name, cls_bases = bases, cls_dict = d,
                   cls_post_init = map_of d ''__post_init__'',
                   cls_model_fields = new_class_model_fields'\<rparr>)))"

text \<open>The metaclass itself, and \<^verbatim>\<open>incus_model\<close>, which calls it on a declared class:
  on its name, its method resolution order and its namespace.\<close>

definition BaseIncusMeta :: pytype where
  "BaseIncusMeta = PyType 0 ''BaseIncusMeta''"

record pyclass =
  class_name :: string
  class_mro :: "pytype list"
  class_vars :: dict

definition incus_model :: "pyclass \<Rightarrow> error + model_class" where
  "incus_model c = BaseIncusMeta_new BaseIncusMeta (class_name c) (class_mro c) (class_vars c)"

text \<open>
  The generated constructor \<^verbatim>\<open>_init\<close>. An instance is its attribute dict. The loop over
  the merged keyword arguments has the state \<^verbatim>\<open>(unsets, self)\<close>.

  What \<^verbatim>\<open>self.__post_init__(**kwargs)\<close> does when the class defines that member is the
  code of the declared class: it is the parameter \<open>invoke\<close>, from the member, the
  instance and the keyword arguments to an exception or the instance afterwards. The
  metaclass's own \<^verbatim>\<open>_post_init\<close> has an empty body.

  Attribute assignment is the default one, a store into the instance's dict, and the
  names of fields and keyword arguments are other than \<^verbatim>\<open>self\<close>, the name that Python
  binds to the instance in \<^verbatim>\<open>_init(self, **kwargs)\<close> and \<^verbatim>\<open>_post_init(self, **kwargs)\<close>.
\<close>

type_synonym hook = "dict \<Rightarrow> dict \<Rightarrow> error + dict"

fun init_loop :: "dict \<Rightarrow> (string \<times> pyobj) list \<Rightarrow> string list \<times> dict \<Rightarrow> string list \<times> dict" where
  "init_loop model_fields [] acc = acc"
| "init_loop model_fields ((field, value) # rest) (unsets, self) =
     (if map_of model_fields field = None then init_loop model_fields rest (unsets, self)
      else if value = Value Unset then init_loop model_fields rest (unsets @ [field], self)
      else if unsets = [] then init_loop model_fields rest (unsets, AList.update field value self)
      else init_loop model_fields rest (unsets, self))"

definition BaseIncusMeta_post_init :: hook where
  "BaseIncusMeta_post_init self kwargs = Inr self"

definition call_post_init :: "(pyobj \<Rightarrow> hook) \<Rightarrow> model_class \<Rightarrow> hook" where
  "call_post_init invoke T =
     (case cls_post_init T of None \<Rightarrow> BaseIncusMeta_post_init | Some m \<Rightarrow> invoke m)"

definition missing_message :: "string list \<Rightarrow> string" where
  "missing_message unsets = ''The required fields '' @ repr_str_list unsets @ '' are missing.''"

text \<open>The body of \<^verbatim>\<open>_init\<close> up to its last statement: it raises, or it reaches the call
  \<^verbatim>\<open>self.__post_init__(**kwargs)\<close> with this instance and these keyword arguments.\<close>

definition init_body :: "model_class \<Rightarrow> dict \<Rightarrow> dict \<Rightarrow> error + dict \<times> dict" where
  "init_body T self kwargs =
     (let kwargs' = dict_or (cls_model_fields T) kwargs
      in case init_loop (cls_model_fields T) kwargs' ([], self) of
           (unsets, self') \<Rightarrow>
             if unsets \<noteq> [] then Inl (PyIncusException (missing_message unsets))
             else Inr (self', kwargs'))"

definition BaseIncusMeta_init :: "(pyobj \<Rightarrow> hook) \<Rightarrow> model_class \<Rightarrow> dict \<Rightarrow> dict \<Rightarrow> error + dict" where
  "BaseIncusMeta_init invoke T self kwargs =
     (case init_body T self kwargs of
        Inl e \<Rightarrow> Inl e
      | Inr (self', kwargs') \<Rightarrow> call_post_init invoke T self' kwargs')"

text \<open>Calling the model type: a fresh instance, then \<^verbatim>\<open>__init__\<close>.\<close>

definition instantiate :: "(pyobj \<Rightarrow> hook) \<Rightarrow> model_class \<Rightarrow> dict \<Rightarrow> error + dict" where
  "instantiate invoke T kwargs = BaseIncusMeta_init invoke T [] kwargs"

section \<open>The classes of the specification's scenario and of the tests\<close>

text \<open>
  The model \<^verbatim>\<open>M\<close> of the specification (\<^verbatim>\<open>a: int\<close> required, \<^verbatim>\<open>b: str = "x"\<close>), the class
  of \<^verbatim>\<open>test_post_init\<close> (\<^verbatim>\<open>a: int\<close>, \<^verbatim>\<open>_b: int\<close> and a \<^verbatim>\<open>__post_init__\<close> that adds a
  salt, here 2, to \<^verbatim>\<open>a\<close> and to the \<^verbatim>\<open>_b\<close> it reads from the keyword arguments), and a
  class \<^verbatim>\<open>K\<close> whose body is \<^verbatim>\<open>x = 5\<close>, each as the namespace that \<^verbatim>\<open>incus_model\<close> reads
  and as the model type it returns.
\<close>

definition example_M :: pyclass where
  "example_M =
     \<lparr>class_name = ''M'', class_mro = [PyType 1 ''M'', PyType 2 ''object''],
      class_vars =
        [(''__module__'', Value (Scalar (PyStr ''models''))),
         (''__annotations__'', Annotations [''a'', ''b'']),
         (''b'', Value (Scalar (PyStr ''x''))),
         (''__doc__'', Value (Scalar PyNone))]\<rparr>"

definition example_TestClass :: pyclass where
  "example_TestClass =
     \<lparr>class_name = ''TestClass'', class_mro = [PyType 3 ''TestClass'', PyType 2 ''object''],
      class_vars =
        [(''__module__'', Value (Scalar (PyStr ''test_base''))),
         (''__annotations__'', Annotations [''a'', ''_b'']),
         (''__post_init__'', PyFunction 0),
         (''__doc__'', Value (Scalar PyNone))]\<rparr>"

definition example_invoke :: "pyobj \<Rightarrow> hook" where
  "example_invoke m self kwargs =
     (case m of
        PyFunction _ \<Rightarrow>
          (case (map_of self ''a'', map_of kwargs ''_b'') of
             (Some (Value (Scalar (PyInt a))), None) \<Rightarrow>
               Inr (AList.update ''_b'' (Value (Scalar (PyInt (0 + 2))))
                     (AList.update ''a'' (Value (Scalar (PyInt (a + 2)))) self))
           | (Some (Value (Scalar (PyInt a))), Some (Value (Scalar (PyInt b)))) \<Rightarrow>
               Inr (AList.update ''_b'' (Value (Scalar (PyInt (b + 2))))
                     (AList.update ''a'' (Value (Scalar (PyInt (a + 2)))) self))
           | _ \<Rightarrow> Inl TypeError)
      | _ \<Rightarrow> Inl TypeError)"

definition example_K :: pyclass where
  "example_K =
     \<lparr>class_name = ''K'', class_mro = [PyType 4 ''K'', PyType 2 ''object''],
      class_vars =
        [(''__module__'', Value (Scalar (PyStr ''models''))),
         (''x'', Value (Scalar (PyInt 5))),
         (''__doc__'', Value (Scalar PyNone))]\<rparr>"


definition example_M_model :: model_class where
  "example_M_model =
     \<lparr>cls_name = ''M'', cls_bases = [PyType 1 ''M'', PyType 2 ''object''],
      cls_dict =
        [(''__module__'', Value (Scalar (PyStr ''models''))),
         (''__annotations__'', Annotations [''a'', ''b'']),
         (''__doc__'', Value (Scalar PyNone)),
         (''a'', Value (PyField \<lparr>cls = BaseIncusMeta, field_name = ''a''\<rparr>)),
         (''b'', Value (PyField \<lparr>cls = BaseIncusMeta, field_name = ''b''\<rparr>))],
      cls_post_init = None,
      cls_model_fields = [(''b'', Value (Scalar (PyStr ''x''))), (''a'', Value Unset)]\<rparr>"

definition example_TestClass_model :: model_class where
  "example_TestClass_model =
     \<lparr>cls_name = ''TestClass'', cls_bases = [PyType 3 ''TestClass'', PyType 2 ''object''],
      cls_dict =
        [(''__module__'', Value (Scalar (PyStr ''test_base''))),
         (''__annotations__'', Annotations [''a'', ''_b'']),
         (''__doc__'', Value (Scalar PyNone)),
         (''__post_init__'', PyFunction 0),
         (''a'', Value (PyField \<lparr>cls = BaseIncusMeta, field_name = ''a''\<rparr>))],
      cls_post_init = Some (PyFunction 0),
      cls_model_fields = [(''a'', Value Unset)]\<rparr>"

definition example_K_model :: model_class where
  "example_K_model =
     \<lparr>cls_name = ''K'', cls_bases = [PyType 4 ''K'', PyType 2 ''object''],
      cls_dict =
        [(''__module__'', Value (Scalar (PyStr ''models''))),
         (''__doc__'', Value (Scalar PyNone))],
      cls_post_init = None,
      cls_model_fields = [(''x'', Value (Scalar (PyInt 5)))]\<rparr>"

section \<open>Properties of the renderings\<close>

lemma digit_char_decimal:
  assumes "n < 10"
  shows "digit_char n \<in> set ''0123456789''"
proof -
  from assms have "n \<in> {0, 1, 2, 3, 4, 5, 6, 7, 8, 9}" by auto
  then show ?thesis by (auto simp: digit_char_def)
qed

lemma dec_nat_digits: "set (dec_nat n) \<subseteq> set ''0123456789''"
proof (induction n rule: dec_nat.induct)
  case (1 n)
  show ?case
  proof (cases "n < 10")
    case True
    then show ?thesis
      using digit_char_decimal [of n] by (subst dec_nat.simps) simp
  next
    case False
    have "n mod 10 < 10" by simp
    then have "digit_char (n mod 10) \<in> set ''0123456789''"
      by (rule digit_char_decimal)
    with False 1 show ?thesis
      by (subst dec_nat.simps) simp
  qed
qed

lemma digit_value_digit_char:
  assumes "n < 10"
  shows "digit_value (digit_char n) = n"
proof -
  from assms have "n \<in> {0, 1, 2, 3, 4, 5, 6, 7, 8, 9}" by auto
  then show ?thesis by (auto simp: digit_char_def digit_value_def)
qed

text \<open>\<open>dec_nat\<close> writes the decimal numeral: read back digit by digit, it is the number.\<close>

lemma dec_nat_value: "foldl (\<lambda>a c. 10 * a + digit_value c) 0 (dec_nat n) = n"
proof (induction n rule: dec_nat.induct)
  case (1 n)
  show ?case
  proof (cases "n < 10")
    case True
    then show ?thesis
      by (subst dec_nat.simps) (simp add: digit_value_digit_char)
  next
    case False
    with 1 show ?thesis
      by (subst dec_nat.simps) (simp add: digit_value_digit_char)
  qed
qed

lemma repr_int_no_quote: "squote \<notin> set (repr_int i) \<and> dquote \<notin> set (repr_int i)"
  using dec_nat_digits [of "nat i"] dec_nat_digits [of "nat (- i)"]
  by (auto simp: repr_int_def squote_def dquote_def)

text \<open>The \<^verbatim>\<open>repr\<close> of a \<^verbatim>\<open>float\<close> is written with digits, a point, a sign, \<^verbatim>\<open>e\<close> and the
  letters of \<^verbatim>\<open>inf\<close> and \<^verbatim>\<open>nan\<close>; so the \<^verbatim>\<open>repr\<close> of a number holds no quote.\<close>

lemma repr_float_digits_chars:
  assumes "set ds \<subseteq> set ''0123456789''"
  shows "set (repr_float_digits ds decpt) \<subseteq> set ''0123456789.e+-infa''"
proof -
  define A where "A = set ''0123456789.e+-infa''"
  have D: "set ''0123456789'' \<subseteq> A"
    by (simp add: A_def)
  have c: "CHR ''.'' \<in> A" "CHR ''e'' \<in> A" "CHR ''+'' \<in> A" "CHR ''-'' \<in> A" "CHR ''0'' \<in> A"
    by (simp_all add: A_def)
  have ds: "set ds \<subseteq> A"
    using assms D by (rule subset_trans)
  have t: "set (take k ds) \<subseteq> A" for k
    using set_take_subset [of k ds] ds by (rule subset_trans)
  have d: "set (drop k ds) \<subseteq> A" for k
    using set_drop_subset [of k ds] ds by (rule subset_trans)
  have "set (dec_nat k) \<subseteq> A" for k
    using dec_nat_digits [of k] D by (rule subset_trans)
  then have p: "set (pad2 (dec_nat k)) \<subseteq> A" for k
    using c(5) by (cases "length (dec_nat k) < 2") (simp_all add: pad2_def)
  have r: "set (replicate k CHR ''0'') \<subseteq> A" for k
    using c(5) by (induction k) simp_all
  have frac: "set (if 1 < int (length ds) then CHR ''.'' # drop 1 ds else []) \<subseteq> A"
    using c(1) d [of 1] by (cases "1 < int (length ds)") simp_all
  have sign: "set [if decpt - 1 < 0 then CHR ''-'' else CHR ''+''] \<subseteq> A"
    using c(3,4) by (cases "decpt - 1 < 0") simp_all
  have e: "set [CHR ''e''] \<subseteq> A" and z: "set ''0.'' \<subseteq> A" and z': "set ''.0'' \<subseteq> A"
    using c by simp_all
  have dot: "set (CHR ''.'' # drop k ds) \<subseteq> A" for k
    using c(1) d [of k] by simp
  have "set (repr_float_digits ds decpt) \<subseteq> A"
  proof (cases "decpt \<le> - 4 \<or> 16 < decpt")
    case True
    then have "repr_float_digits ds decpt =
        take 1 ds @ (if 1 < int (length ds) then CHR ''.'' # drop 1 ds else []) @ [CHR ''e'']
          @ [if decpt - 1 < 0 then CHR ''-'' else CHR ''+'']
          @ pad2 (dec_nat (nat \<bar>decpt - 1\<bar>))"
      by (simp add: repr_float_digits_def Let_def)
    then show ?thesis
      by (simp only: set_append Un_subset_iff t frac e sign p simp_thms)
  next
    case exp: False
    show ?thesis
    proof (cases "decpt \<le> 0")
      case True
      with exp have "repr_float_digits ds decpt = ''0.'' @ replicate (nat (- decpt)) CHR ''0'' @ ds"
        by (simp add: repr_float_digits_def Let_def)
      then show ?thesis
        by (simp only: set_append Un_subset_iff z r ds simp_thms)
    next
      case pos: False
      show ?thesis
      proof (cases "int (length ds) \<le> decpt")
        case True
        with exp pos have "repr_float_digits ds decpt =
            ds @ replicate (nat (decpt - int (length ds))) CHR ''0'' @ ''.0''"
          by (simp add: repr_float_digits_def Let_def)
        then show ?thesis
          by (simp only: set_append Un_subset_iff z' r ds simp_thms)
      next
        case False
        with exp pos have "repr_float_digits ds decpt =
            take (nat decpt) ds @ CHR ''.'' # drop (nat decpt) ds"
          by (simp add: repr_float_digits_def Let_def)
        then show ?thesis
          by (simp only: set_append Un_subset_iff t dot simp_thms)
      qed
    qed
  qed
  then show ?thesis by (simp only: A_def)
qed

lemma repr_float_chars: "set (repr_float x) \<subseteq> set ''0123456789.e+-infa''"
proof (cases x)
  case (Finite negative m e)
  define A where "A = set ''0123456789.e+-infa''"
  have body: "set (repr_float_digits (dec_nat m) (int (length (dec_nat m)) + e)) \<subseteq> A"
    unfolding A_def using dec_nat_digits by (rule repr_float_digits_chars)
  have "CHR ''-'' \<in> A"
    by (simp add: A_def)
  then have sign: "set (if negative then [CHR ''-''] else []) \<subseteq> A"
    by (cases negative) simp_all
  have "set (repr_float (Finite negative m e)) \<subseteq> A"
    by (simp only: repr_float.simps set_append Un_subset_iff sign body simp_thms)
  then show ?thesis
    unfolding Finite by (simp only: A_def)
next
  case (Infinity negative)
  then show ?thesis by simp
next
  case NaN
  then show ?thesis by simp
qed

lemma repr_float_no_quote: "squote \<notin> set (repr_float x) \<and> dquote \<notin> set (repr_float x)"
  using repr_float_chars [of x] by (auto simp: squote_def dquote_def)

lemma repr_numeric_no_quote:
  "is_numeric v \<Longrightarrow> squote \<notin> set (repr_scalar v) \<and> dquote \<notin> set (repr_scalar v)"
  using repr_int_no_quote repr_float_no_quote
  by (cases v) (auto simp: squote_def dquote_def)

lemma repr_char_plain:
  "isprintable c \<Longrightarrow> c \<noteq> squote \<Longrightarrow> c \<noteq> backslash \<Longrightarrow> repr_char squote c = [c]"
  by (auto simp: repr_char_def isprintable_def)

lemma concat_repr_char_plain: "plain_text s \<Longrightarrow> concat (map (repr_char squote) s) = s"
  by (induction s) (simp_all add: plain_text_def repr_char_plain)

lemma repr_str_plain:
  assumes "plain_text s"
  shows "repr_str s = [squote] @ s @ [squote]"
proof -
  from assms have "squote \<notin> set s"
    by (auto simp: plain_text_def list_all_iff)
  then have "repr_quote s = squote"
    by (simp add: repr_quote_def)
  with assms show ?thesis
    by (simp add: repr_str_def Let_def concat_repr_char_plain)
qed

section \<open>Filter queries (fields.py, general.py)\<close>

text \<open>The constructor of \<^verbatim>\<open>fields.py\<close> raises exactly on a mismatch between the
  operation and the presence of the second operand, and otherwise stores the three
  components.\<close>

lemma FilterQuery_init_raises_iff:
  "(\<exists>e. FilterQuery_init first op second = Inl e) \<longleftrightarrow>
     (second = Unset \<and> op \<noteq> NOT) \<or> (second \<noteq> Unset \<and> op = NOT)"
  by (auto simp: FilterQuery_init_def)

lemma FilterQuery_init_stores:
  "(\<exists>e. FilterQuery_init first op second = Inl e) \<or>
     FilterQuery_init first op second = Inr (FilterQuery first op second)"
  by (simp add: FilterQuery_init_def)

lemma general_FilterQuery_init_raises_iff:
  "(\<exists>e. general_FilterQuery_init first op second = Inl e) \<longleftrightarrow> (second = GUnset \<and> op \<noteq> NOT)"
  by (auto simp: general_FilterQuery_init_def)

lemma general_repr_negation_with_operand:
  "general_repr u (general_FilterQuery first NOT (GScalar v)) = Inl KeyError"
  by simp

text \<open>
  Claim C1. Constructing a filter query raises the domain error exactly when the second
  operand is the sentinel and the operation is not a negation, or the second operand is
  given and the operation is a negation. The constructor of \<^verbatim>\<open>fields.py\<close> does so
  (\<open>FilterQuery_init_raises_iff\<close>); the constructor of \<^verbatim>\<open>general.py\<close> accepts a negation
  with a second operand, here \<^verbatim>\<open>FilterQuery('a', FilterOperation.NOT, 5)\<close>, a node that
  its own \<^verbatim>\<open>__repr__\<close> cannot render.
\<close>

theorem general_FilterQuery_accepts_negation_with_operand:
  "general_FilterQuery_init ''a'' NOT (GScalar (PyInt 5)) =
     Inr (general_FilterQuery ''a'' NOT (GScalar (PyInt 5)))"
  by (simp add: general_FilterQuery_init_def)

text \<open>
  Claim C3, as amended. For a descriptor \<open>F\<close> of \<^verbatim>\<open>fields.py\<close> and every scalar \<open>v\<close>, the
  wire string of \<^verbatim>\<open>F == v\<close> is the field name, \<^verbatim>\<open> eq \<close>, and \<^verbatim>\<open>repr(v)\<close>. For a \<^verbatim>\<open>str\<close> of
  printable characters with no single quote and no backslash, \<^verbatim>\<open>repr(v)\<close> is the text
  between single quotes; for a number (\<^verbatim>\<open>int\<close>, \<^verbatim>\<open>bool\<close>, \<^verbatim>\<open>float\<close>) it holds no quote,
  and for an \<^verbatim>\<open>int\<close> it is the sign and the decimal numeral.
\<close>

theorem str_ModelField_eq_scalar:
  "map_sum id str_FilterQuery (ModelField_eq F (Scalar v)) =
     Inr (field_name F @ '' eq '' @ repr_scalar v)
   \<and> (plain_text s \<longrightarrow> repr_scalar (PyStr s) = [squote] @ s @ [squote])
   \<and> (is_numeric v \<longrightarrow> squote \<notin> set (repr_scalar v) \<and> dquote \<notin> set (repr_scalar v))
   \<and> repr_scalar (PyInt i) = (if i < 0 then CHR ''-'' # dec_nat (nat (- i)) else dec_nat (nat i))
   \<and> foldl (\<lambda>a c. 10 * a + digit_value c) 0 (dec_nat n) = n"
  using repr_numeric_no_quote [of v]
  by (simp add: ModelField_eq_def FilterQuery_init_def str_ModelField_def repr_str_plain
      dec_nat_value repr_int_def)

theorem str_ModelField_eq_scalar_witness:
  "plain_text ''web''
   \<and> map_sum id str_FilterQuery
       (ModelField_eq \<lparr>cls = PyType 1 ''M'', field_name = ''name''\<rparr> (Scalar (PyStr ''web''))) =
     Inr (''name eq '' @ [squote] @ ''web'' @ [squote])
   \<and> is_numeric (PyInt 5)
   \<and> map_sum id str_FilterQuery
       (ModelField_eq \<lparr>cls = PyType 1 ''M'', field_name = ''a''\<rparr> (Scalar (PyInt 5))) =
     Inr ''a eq 5''
   \<and> squote \<notin> set (repr_scalar (PyInt 5))
   \<and> is_numeric (PyFloat (Finite False 25 (- 1)))
   \<and> map_sum id str_FilterQuery
       (ModelField_eq \<lparr>cls = PyType 1 ''M'', field_name = ''a''\<rparr>
          (Scalar (PyFloat (Finite False 25 (- 1))))) =
     Inr ''a eq 2.5''"
proof -
  have p: "plain_text ''web''"
    by (simp add: plain_text_def isprintable_def squote_def backslash_def)
  have d: "repr_int 5 = ''5''"
    by (simp add: repr_int_def dec_nat.simps digit_char_def)
  have f: "repr_float (Finite False 25 (- 1)) = ''2.5''"
    by (simp add: repr_float_digits_def dec_nat.simps digit_char_def)
  show ?thesis
    using p d f
      str_ModelField_eq_scalar [of "\<lparr>cls = PyType 1 ''M'', field_name = ''name''\<rparr>"
        "PyStr ''web''" "''web''" 5 5]
      str_ModelField_eq_scalar [of "\<lparr>cls = PyType 1 ''M'', field_name = ''a''\<rparr>"
        "PyInt 5" "''web''" 5 5]
      str_ModelField_eq_scalar [of "\<lparr>cls = PyType 1 ''M'', field_name = ''a''\<rparr>"
        "PyFloat (Finite False 25 (- 1))" "''web''" 5 5]
    by simp
qed

text \<open>A text with a single quote is rendered in double quotes: \<^verbatim>\<open>str(M.n == "it's")\<close> is
  \<^verbatim>\<open>n eq "it's"\<close>, not the text between single quotes.\<close>

theorem str_ModelField_eq_quote_counterexample:
  "map_sum id str_FilterQuery
     (ModelField_eq \<lparr>cls = PyType 1 ''M'', field_name = ''n''\<rparr>
        (Scalar (PyStr (''it'' @ [squote] @ ''s'')))) =
     Inr (''n eq '' @ [dquote] @ ''it'' @ [squote] @ ''s'' @ [dquote])
   \<and> map_sum id str_FilterQuery
     (ModelField_eq \<lparr>cls = PyType 1 ''M'', field_name = ''n''\<rparr>
        (Scalar (PyStr (''it'' @ [squote] @ ''s'')))) \<noteq>
     Inr (''n eq '' @ [squote] @ (''it'' @ [squote] @ ''s'') @ [squote])"
  by (simp add: ModelField_eq_def FilterQuery_init_def str_ModelField_def repr_str_def Let_def
      repr_quote_def repr_char_def squote_def dquote_def backslash_def isprintable_def)

text \<open>The older \<^verbatim>\<open>general.py\<close> quotes the field name and the operation as well.\<close>

lemma general_str_eq_scalar:
  "general_ModelField_eq \<lparr>g_field_name = ''n''\<rparr> (GScalar (PyInt 5)) =
     Inr (general_FilterQuery ''n'' EQUALS (GScalar (PyInt 5)))
   \<and> general_str u (general_FilterQuery ''n'' EQUALS (GScalar (PyInt 5))) =
     Inr ([squote] @ ''n'' @ [squote] @ '' '' @ [squote] @ ''eq'' @ [squote] @ '' 5'')"
  by (simp add: general_ModelField_eq_def general_FilterQuery_init_def repr_str_def Let_def
      repr_quote_def repr_char_def squote_def dquote_def backslash_def isprintable_def
      repr_int_def dec_nat.simps digit_char_def)




text \<open>
  Claim C6. For queries \<open>A\<close> and \<open>B\<close>, \<^verbatim>\<open>A & B\<close>, \<^verbatim>\<open>A | B\<close> and \<^verbatim>\<open>~A\<close> are built without
  an error, and their wire strings are \<^verbatim>\<open>str(A) + " and " + str(B)\<close>,
  \<^verbatim>\<open>str(A) + " or " + str(B)\<close> and \<^verbatim>\<open>"not " + str(A)\<close>.
\<close>

theorem str_combinators:
  "map_sum id str_FilterQuery (FilterQuery_and A (PyQuery B)) =
     Inr (str_FilterQuery A @ '' and '' @ str_FilterQuery B)
   \<and> map_sum id str_FilterQuery (FilterQuery_or A (PyQuery B)) =
     Inr (str_FilterQuery A @ '' or '' @ str_FilterQuery B)
   \<and> map_sum id str_FilterQuery (FilterQuery_invert A) = Inr (''not '' @ str_FilterQuery A)"
  by (simp add: FilterQuery_and_def FilterQuery_or_def FilterQuery_invert_def FilterQuery_init_def)

text \<open>The composed example of the specification: \<^verbatim>\<open>(M.a == 5) & (M.b != 'y')\<close>.\<close>

lemma end_to_end_wire_string:
  "ModelField_eq \<lparr>cls = BaseIncusMeta, field_name = ''a''\<rparr> (Scalar (PyInt 5)) = Inr p \<Longrightarrow>
   ModelField_ne \<lparr>cls = BaseIncusMeta, field_name = ''b''\<rparr> (Scalar (PyStr ''y'')) = Inr q \<Longrightarrow>
   map_sum id str_FilterQuery (FilterQuery_and p (PyQuery q)) =
     Inr (''a eq 5 and b ne '' @ [squote] @ ''y'' @ [squote])"
  by (auto simp: ModelField_eq_def ModelField_ne_def FilterQuery_and_def FilterQuery_init_def
      str_ModelField_def repr_int_def dec_nat.simps digit_char_def repr_str_def Let_def
      repr_quote_def repr_char_def squote_def dquote_def backslash_def isprintable_def)



section \<open>Dicts, the model builder and the generated constructor (base.py)\<close>

lemma map_of_fold_update:
  "distinct (map fst items) \<Longrightarrow>
   map_of (fold (\<lambda>(k, v). AList.update k v) items d) k =
     (case map_of items k of Some v \<Rightarrow> Some v | None \<Rightarrow> map_of d k)"
proof (induction items arbitrary: d)
  case Nil
  then show ?case by simp
next
  case (Cons x xs)
  obtain a b where x: "x = (a, b)" by (cases x)
  from Cons.prems x have nin: "map_of xs a = None"
    by (simp add: map_of_eq_None_iff)
  from Cons.prems have "distinct (map fst xs)" by simp
  from Cons.IH [OF this, of "AList.update a b d"] x nin show ?case
    by (auto simp: update_conv' split: option.splits)
qed

lemma keys_fold_update:
  "fst ` set (fold (\<lambda>(k, v). AList.update k v) items d) = fst ` set d \<union> fst ` set items"
proof (induction items arbitrary: d)
  case Nil
  then show ?case by simp
next
  case (Cons x xs)
  obtain a b where x: "x = (a, b)" by (cases x)
  have "fst ` set (fold (\<lambda>(k, v). AList.update k v) (x # xs) d) =
      fst ` set (AList.update a b d) \<union> fst ` set xs"
    using Cons.IH [of "AList.update a b d"] x by simp
  also have "\<dots> = fst ` set d \<union> fst ` set (x # xs)"
    unfolding dom_update x by auto
  finally show ?case .
qed

lemma distinct_fold_update:
  "distinct (map fst d) \<Longrightarrow> distinct (map fst (fold (\<lambda>(k, v). AList.update k v) items d))"
  by (induction items arbitrary: d) (auto simp: distinct_update)

lemma fold_update_keeps_pair:
  "(k, v) \<in> set d \<Longrightarrow> k \<notin> fst ` set items \<Longrightarrow>
   (k, v) \<in> set (fold (\<lambda>(k, v). AList.update k v) items d)"
proof (induction items arbitrary: d)
  case Nil
  then show ?case by simp
next
  case (Cons x xs)
  obtain a b where x: "x = (a, b)" by (cases x)
  with Cons.prems have ne: "a \<noteq> k" by auto
  have "(k, v) \<in> set (AList.update a b d)" using Cons.prems(1) ne
    by (induction d) auto
  with Cons x show ?case by auto
qed

lemma init_loop_unsets:
  "fst (init_loop mf items (u, s)) =
     u @ map fst (filter (\<lambda>(k, v). map_of mf k \<noteq> None \<and> v = Value Unset) items)"
proof (induction items arbitrary: u s)
  case Nil
  then show ?case by simp
next
  case (Cons x xs)
  obtain a b where x: "x = (a, b)" by (cases x)
  show ?case unfolding x by (simp add: Cons.IH)
qed

lemma init_loop_assigns:
  "\<forall>(k, v) \<in> set items. map_of mf k \<noteq> None \<longrightarrow> v \<noteq> Value Unset \<Longrightarrow>
   init_loop mf items ([], s) =
     ([], fold (\<lambda>(k, v). AList.update k v) (filter (\<lambda>(k, v). map_of mf k \<noteq> None) items) s)"
proof (induction items arbitrary: s)
  case Nil
  then show ?case by simp
next
  case (Cons x xs)
  obtain a b where x: "x = (a, b)" by (cases x)
  from Cons.prems have rest: "\<forall>(k, v) \<in> set xs. map_of mf k \<noteq> None \<longrightarrow> v \<noteq> Value Unset"
    by simp
  from Cons.prems x have here: "map_of mf a \<noteq> None \<longrightarrow> b \<noteq> Value Unset"
    by simp
  show ?case unfolding x using here by (simp add: Cons.IH [OF rest])
qed

lemma init_loop_no_unsets:
  assumes "fst (init_loop mf items ([], s)) = []"
  shows "init_loop mf items ([], s) =
     ([], fold (\<lambda>(k, v). AList.update k v) (filter (\<lambda>(k, v). map_of mf k \<noteq> None) items) s)"
proof -
  from assms have "filter (\<lambda>(k, v). map_of mf k \<noteq> None \<and> v = Value Unset) items = []"
    by (simp add: init_loop_unsets)
  then have "\<forall>(k, v) \<in> set items. map_of mf k \<noteq> None \<longrightarrow> v \<noteq> Value Unset"
    by (auto simp: filter_empty_conv)
  then show ?thesis by (rule init_loop_assigns)
qed

lemma sublist_embed:
  assumes "sublist x ys"
  shows "sublist x (ps @ ys @ ss)"
proof -
  from assms obtain p s where "ys = p @ x @ s" by (auto simp: sublist_def)
  then have "ps @ ys @ ss = (ps @ p) @ x @ (s @ ss)" by simp
  then show ?thesis unfolding sublist_def by blast
qed

lemma sublist_join: "x \<in> set xs \<Longrightarrow> sublist x (join sep xs)"
proof (induction sep xs rule: join.induct)
  case (1 sep)
  then show ?case by simp
next
  case (2 sep y)
  then show ?case by simp
next
  case (3 sep y z zs)
  show ?case
  proof (cases "x = y")
    case True
    then show ?thesis by simp
  next
    case False
    with 3 have "sublist x (join sep (z # zs))" by simp
    then have "sublist x ((y @ sep) @ join sep (z # zs) @ [])" by (rule sublist_embed)
    then show ?thesis by simp
  qed
qed

lemma sublist_missing_message:
  assumes "n \<in> set unsets"
  shows "sublist (repr_str n) (missing_message unsets)"
proof -
  from assms have "repr_str n \<in> set (map repr_str unsets)" by simp
  then have "sublist (repr_str n) (join '', '' (map repr_str unsets))" by (rule sublist_join)
  then have "sublist (repr_str n)
      (''The required fields ['' @ join '', '' (map repr_str unsets) @ ''] are missing.'')"
    by (rule sublist_embed)
  then show ?thesis by (simp add: missing_message_def repr_str_list_def)
qed

text \<open>
  Claim C2. When a declared field has no default (the mapping holds the sentinel for it)
  and no keyword argument supplies it, the constructor raises the domain error before
  it reaches the call of the post-construction hook, whatever that hook is; the message
  is that of the list of the missing fields, which are exactly the declared fields
  that the merged keyword arguments leave at the sentinel, and the message holds the
  \<^verbatim>\<open>repr\<close> of each of them.
\<close>

theorem missing_fields_raise:
  assumes "map_of (cls_model_fields T) n = Some (Value Unset)"
    and "n \<notin> fst ` set kwargs"
  shows "\<exists>unsets. init_body T self kwargs = Inl (PyIncusException (missing_message unsets))
      \<and> BaseIncusMeta_init invoke T self kwargs = Inl (PyIncusException (missing_message unsets))
      \<and> n \<in> set unsets
      \<and> set unsets = {k. map_of (cls_model_fields T) k \<noteq> None
            \<and> (k, Value Unset) \<in> set (dict_or (cls_model_fields T) kwargs)}
      \<and> (\<forall>k \<in> set unsets. sublist (repr_str k) (missing_message unsets))
      \<and> BaseIncusMeta_init invoke' T self kwargs = BaseIncusMeta_init invoke T self kwargs"
proof -
  let ?mf = "cls_model_fields T"
  let ?kw = "dict_or ?mf kwargs"
  let ?U = "fst (init_loop ?mf ?kw ([], self))"
  have U: "?U = map fst (filter (\<lambda>(k, v). map_of ?mf k \<noteq> None \<and> v = Value Unset) ?kw)"
    by (simp add: init_loop_unsets)
  from assms(1) have "(n, Value Unset) \<in> set ?mf" by (rule map_of_SomeD)
  with assms(2) have "(n, Value Unset) \<in> set ?kw"
    by (simp add: dict_or_def fold_update_keeps_pair)
  with assms(1) have n: "n \<in> set ?U" unfolding U by force
  then have ne: "?U \<noteq> []" by auto
  have body: "init_body T self kwargs = Inl (PyIncusException (missing_message ?U))"
    using ne by (cases "init_loop ?mf ?kw ([], self)") (simp add: init_body_def Let_def)
  have s: "set ?U = {k. map_of ?mf k \<noteq> None \<and> (k, Value Unset) \<in> set ?kw}"
    unfolding U by force
  show ?thesis
    using body n s sublist_missing_message [of _ ?U]
    by (intro exI [of _ ?U]) (simp add: BaseIncusMeta_init_def)
qed

lemma map_of_fold_update_rev:
  "map_of (fold (\<lambda>(k, v). AList.update k v) items d) k =
     (case map_of (rev items) k of Some v \<Rightarrow> Some v | None \<Rightarrow> map_of d k)"
proof (induction items arbitrary: d)
  case Nil
  then show ?case by simp
next
  case (Cons x xs)
  obtain a b where x: "x = (a, b)" by (cases x)
  show ?case unfolding x
    by (simp add: Cons.IH update_conv' map_add_def split: option.splits)
qed

lemma map_of_fold_update_other:
  assumes "k \<notin> fst ` set items"
  shows "map_of (fold (\<lambda>(k, v). AList.update k v) items d) k = map_of d k"
proof -
  from assms have "map_of (rev items) k = None" by (simp add: map_of_eq_None_iff)
  then show ?thesis by (simp add: map_of_fold_update_rev)
qed

lemma map_of_filter_key:
  "map_of (filter (\<lambda>(k, v). Q k) xs) k = (if Q k then map_of xs k else None)"
  by (induction xs) auto

lemma map_of_setdefault:
  "map_of (setdefault a v d) k =
     (case map_of d k of Some x \<Rightarrow> Some x | None \<Rightarrow> if k = a then Some v else None)"
  by (auto simp: setdefault_def map_add_def split: option.splits)

lemma distinct_setdefault:
  "distinct (map fst d) \<Longrightarrow> distinct (map fst (setdefault a v d))"
  by (auto simp: setdefault_def map_of_eq_None_iff split: option.splits)

lemma classify_eq:
  "classify items (f, m, s) =
     (fold (\<lambda>(k, v). AList.update k v)
        (filter (\<lambda>(a, v). \<not> (callable v \<or> is_property v) \<and> \<not> startswith_underscore a) items) f,
      m @ filter (\<lambda>(a, v). callable v \<or> is_property v) items,
      s @ filter (\<lambda>(a, v). \<not> (callable v \<or> is_property v) \<and> startswith_underscore a) items)"
proof (induction items arbitrary: f m s)
  case Nil
  then show ?case by simp
next
  case (Cons x xs)
  obtain a b where x: "x = (a, b)" by (cases x)
  show ?case unfolding x by (simp add: Cons.IH)
qed

lemma annotated_eq:
  "annotated mcs names (fi, nf) =
     (fi @ map (\<lambda>a. (a, Value (PyField \<lparr>cls = mcs, field_name = a\<rparr>)))
             (filter (\<lambda>a. \<not> startswith_underscore a) names),
      fold (\<lambda>a. setdefault a (Value Unset)) (filter (\<lambda>a. \<not> startswith_underscore a) names) nf)"
  by (induction names arbitrary: fi nf) simp_all

lemma distinct_fold_setdefault:
  "distinct (map fst d) \<Longrightarrow> distinct (map fst (fold (\<lambda>a. setdefault a v) names d))"
  by (induction names arbitrary: d) (simp_all add: distinct_setdefault)

lemma map_of_fold_setdefault:
  "map_of (fold (\<lambda>a. setdefault a v) names d) k =
     (case map_of d k of Some x \<Rightarrow> Some x | None \<Rightarrow> if k \<in> set names then Some v else None)"
proof (induction names arbitrary: d)
  case Nil
  then show ?case by (simp split: option.splits)
next
  case (Cons a names)
  show ?case by (simp add: Cons.IH map_of_setdefault split: option.splits)
qed

text \<open>What the builder returns, in closed form.\<close>

lemma BaseIncusMeta_new_Inr:
  assumes "BaseIncusMeta_new mcs name bases attrs = Inr T"
  obtains names where "annotation_names attrs = Inr names"
    and "cls_model_fields T =
       fold (\<lambda>a. setdefault a (Value Unset)) (filter (\<lambda>a. \<not> startswith_underscore a) names)
         (fold (\<lambda>(k, v). AList.update k v)
           (filter (\<lambda>(a, v). \<not> (callable v \<or> is_property v) \<and> \<not> startswith_underscore a) attrs) [])"
    and "cls_dict T = dict_of_items
       (filter (\<lambda>(a, v). \<not> (callable v \<or> is_property v) \<and> startswith_underscore a) attrs
        @ filter (\<lambda>(a, v). callable v \<or> is_property v) attrs
        @ map (\<lambda>a. (a, Value (PyField \<lparr>cls = mcs, field_name = a\<rparr>)))
             (filter (\<lambda>a. \<not> startswith_underscore a) names))"
    and "cls_post_init T = map_of (cls_dict T) ''__post_init__''"
proof (cases "annotation_names attrs")
  case (Inl e)
  with assms show ?thesis
    by (simp add: BaseIncusMeta_new_def classify_eq)
next
  case (Inr names)
  with assms have "T = \<lparr>cls_name = name, cls_bases = bases,
      cls_dict = dict_of_items
       (filter (\<lambda>(a, v). \<not> (callable v \<or> is_property v) \<and> startswith_underscore a) attrs
        @ filter (\<lambda>(a, v). callable v \<or> is_property v) attrs
        @ map (\<lambda>a. (a, Value (PyField \<lparr>cls = mcs, field_name = a\<rparr>)))
             (filter (\<lambda>a. \<not> startswith_underscore a) names)),
      cls_post_init = map_of (dict_of_items
       (filter (\<lambda>(a, v). \<not> (callable v \<or> is_property v) \<and> startswith_underscore a) attrs
        @ filter (\<lambda>(a, v). callable v \<or> is_property v) attrs
        @ map (\<lambda>a. (a, Value (PyField \<lparr>cls = mcs, field_name = a\<rparr>)))
             (filter (\<lambda>a. \<not> startswith_underscore a) names))) ''__post_init__'',
      cls_model_fields = fold (\<lambda>a. setdefault a (Value Unset)) (filter (\<lambda>a. \<not> startswith_underscore a) names)
         (fold (\<lambda>(k, v). AList.update k v)
           (filter (\<lambda>(a, v). \<not> (callable v \<or> is_property v) \<and> \<not> startswith_underscore a) attrs) [])\<rparr>"
    by (simp add: BaseIncusMeta_new_def classify_eq annotated_eq Let_def)
  with Inr that show ?thesis by simp
qed

lemma distinct_model_fields:
  assumes "BaseIncusMeta_new mcs name bases attrs = Inr T"
  shows "distinct (map fst (cls_model_fields T))"
proof -
  from assms obtain names where "cls_model_fields T =
       fold (\<lambda>a. setdefault a (Value Unset)) (filter (\<lambda>a. \<not> startswith_underscore a) names)
         (fold (\<lambda>(k, v). AList.update k v)
           (filter (\<lambda>(a, v). \<not> (callable v \<or> is_property v) \<and> \<not> startswith_underscore a) attrs) [])"
    by (rule BaseIncusMeta_new_Inr)
  then show ?thesis
    by (simp add: distinct_fold_setdefault distinct_fold_update)
qed

lemma map_of_dict_or:
  "distinct (map fst other) \<Longrightarrow>
   map_of (dict_or d other) k = (case map_of other k of Some v \<Rightarrow> Some v | None \<Rightarrow> map_of d k)"
  by (simp add: dict_or_def map_of_fold_update)

lemma map_of_dict_or_default:
  "map_of other k = None \<Longrightarrow> map_of (dict_or d other) k = map_of d k"
  by (simp add: dict_or_def map_of_fold_update_other map_of_eq_None_iff)

lemma distinct_dict_or:
  "distinct (map fst d) \<Longrightarrow> distinct (map fst (dict_or d other))"
  by (simp add: dict_or_def distinct_fold_update)

lemma init_body_Inr:
  assumes "init_body T self kwargs = Inr (self', kwargs')"
  shows "kwargs' = dict_or (cls_model_fields T) kwargs"
    and "self' = fold (\<lambda>(k, v). AList.update k v)
           (filter (\<lambda>(k, v). map_of (cls_model_fields T) k \<noteq> None) kwargs') self"
proof -
  obtain U S where l: "init_loop (cls_model_fields T)
      (dict_or (cls_model_fields T) kwargs) ([], self) = (U, S)"
    by (cases "init_loop (cls_model_fields T) (dict_or (cls_model_fields T) kwargs) ([], self)")
  with assms have u: "U = []" and s: "S = self'"
    and k: "kwargs' = dict_or (cls_model_fields T) kwargs"
    by (auto simp: init_body_def Let_def split: if_splits)
  show "kwargs' = dict_or (cls_model_fields T) kwargs" by (rule k)
  from l u have "fst (init_loop (cls_model_fields T)
      (dict_or (cls_model_fields T) kwargs) ([], self)) = []" by simp
  from init_loop_no_unsets [OF this] l s k
  show "self' = fold (\<lambda>(k, v). AList.update k v)
           (filter (\<lambda>(k, v). map_of (cls_model_fields T) k \<noteq> None) kwargs') self"
    by simp
qed

lemma init_body_undeclared:
  assumes "init_body T self kwargs = Inr (self', kwargs')"
    and "map_of (cls_model_fields T) k = None"
  shows "map_of self' k = map_of self k"
proof -
  have "k \<notin> fst ` set (filter (\<lambda>(k, v). map_of (cls_model_fields T) k \<noteq> None) kwargs')"
    using assms(2) by auto
  then show ?thesis
    unfolding init_body_Inr(2) [OF assms(1)] by (rule map_of_fold_update_other)
qed

lemma init_body_declared:
  assumes "init_body T self kwargs = Inr (self', kwargs')"
    and "distinct (map fst (cls_model_fields T))"
    and "map_of (cls_model_fields T) k \<noteq> None"
  shows "map_of self' k = map_of kwargs' k" and "map_of kwargs' k \<noteq> None"
proof -
  let ?mf = "cls_model_fields T"
  have kw: "kwargs' = dict_or ?mf kwargs" by (rule init_body_Inr(1) [OF assms(1)])
  from assms(2) have "distinct (map fst kwargs')"
    unfolding kw by (rule distinct_dict_or)
  then have d: "distinct (map fst (filter (\<lambda>(k, v). map_of ?mf k \<noteq> None) kwargs'))"
    by (simp add: distinct_map_filter)
  have "k \<in> fst ` set ?mf" using assms(3) by (simp add: map_of_eq_None_iff)
  then have "k \<in> fst ` set kwargs'"
    unfolding kw dict_or_def keys_fold_update by simp
  then show n: "map_of kwargs' k \<noteq> None" by (simp add: map_of_eq_None_iff)
  have "map_of (filter (\<lambda>(k, v). map_of ?mf k \<noteq> None) kwargs') k = map_of kwargs' k"
    using assms(3) map_of_filter_key [of "\<lambda>k. map_of ?mf k \<noteq> None" kwargs' k] by simp
  with n show "map_of self' k = map_of kwargs' k"
    unfolding init_body_Inr(2) [OF assms(1)] map_of_fold_update [OF d]
    by (auto split: option.splits)
qed

lemma default_hook:
  assumes "init_body T self kwargs = Inr (self', kwargs')" and "cls_post_init T = None"
  shows "BaseIncusMeta_init invoke T self kwargs = Inr self'"
  using assms
  by (simp add: BaseIncusMeta_init_def call_post_init_def BaseIncusMeta_post_init_def)

text \<open>
  Claim C9. When a construction succeeds, the constructor reached the call of the
  post-construction hook, and the hook received the keyword arguments merged over the
  default-field mapping: each supplied pair is in it, declared or not, with or without
  a leading underscore, and a key that was not supplied has its default. The instance the
  hook received has no attribute for a key that is not a declared field, beyond what it
  had before.
\<close>

theorem post_init_receives_merged_kwargs:
  assumes "BaseIncusMeta_init invoke T self kwargs = Inr inst"
    and "distinct (map fst kwargs)"
  shows "\<exists>self'. init_body T self kwargs = Inr (self', dict_or (cls_model_fields T) kwargs)
      \<and> call_post_init invoke T self' (dict_or (cls_model_fields T) kwargs) = Inr inst
      \<and> (\<forall>(k, v) \<in> set kwargs. (k, v) \<in> set (dict_or (cls_model_fields T) kwargs))
      \<and> (\<forall>k. map_of kwargs k = None \<longrightarrow>
             map_of (dict_or (cls_model_fields T) kwargs) k = map_of (cls_model_fields T) k)
      \<and> (\<forall>k. map_of (cls_model_fields T) k = None \<longrightarrow> map_of self' k = map_of self k)"
proof -
  let ?kw = "dict_or (cls_model_fields T) kwargs"
  from assms(1) obtain self' kwargs' where b: "init_body T self kwargs = Inr (self', kwargs')"
    and c: "call_post_init invoke T self' kwargs' = Inr inst"
    by (auto simp: BaseIncusMeta_init_def split: sum.splits)
  have kw: "kwargs' = ?kw" by (rule init_body_Inr(1) [OF b])
  have supplied: "\<forall>(k, v) \<in> set kwargs. (k, v) \<in> set ?kw"
  proof (clarify)
    fix k v assume "(k, v) \<in> set kwargs"
    with assms(2) have "map_of kwargs k = Some v" by simp
    then have "map_of ?kw k = Some v" by (simp add: map_of_dict_or [OF assms(2)])
    then show "(k, v) \<in> set ?kw" by (rule map_of_SomeD)
  qed
  show ?thesis
    using b c supplied init_body_undeclared [OF b] unfolding kw
    by (intro exI [of _ self']) (simp add: map_of_dict_or_default)
qed

text \<open>
  Claim C8, as amended. When the constructor of a model type reaches the call of the
  post-construction hook, the instance it hands to the hook has each declared field
  that was supplied at the supplied value, each declared field that was not supplied at
  its recorded default, and no new attribute for any other key; for a type that keeps the
  metaclass's hook, that instance is the constructed one.
\<close>

theorem constructed_instance_fields:
  assumes "BaseIncusMeta_new mcs name bases attrs = Inr T"
    and "distinct (map fst kwargs)"
    and "init_body T self kwargs = Inr (self', kwargs')"
  shows "(\<forall>k v. map_of kwargs k = Some v \<and> map_of (cls_model_fields T) k \<noteq> None \<longrightarrow>
            map_of self' k = Some v)
      \<and> (\<forall>k d. map_of (cls_model_fields T) k = Some d \<and> map_of kwargs k = None \<longrightarrow>
            map_of self' k = Some d)
      \<and> (\<forall>k. map_of (cls_model_fields T) k = None \<longrightarrow> map_of self' k = map_of self k)
      \<and> (cls_post_init T = None \<longrightarrow> BaseIncusMeta_init invoke T self kwargs = Inr self')"
proof -
  have d: "distinct (map fst (cls_model_fields T))"
    using assms(1) by (rule distinct_model_fields)
  have kw: "kwargs' = dict_or (cls_model_fields T) kwargs"
    by (rule init_body_Inr(1) [OF assms(3)])
  have declared: "map_of self' k = map_of (dict_or (cls_model_fields T) kwargs) k"
    if "map_of (cls_model_fields T) k \<noteq> None" for k
    using init_body_declared(1) [OF assms(3) d that] kw by simp
  show ?thesis
    using declared init_body_undeclared [OF assms(3)] default_hook [OF assms(3)]
    by (auto simp: map_of_dict_or [OF assms(2)] map_of_dict_or_default)
qed

lemma keys_dict_of_items: "fst ` set (dict_of_items items) = fst ` set items"
  by (simp add: dict_of_items_def keys_fold_update)

lemma map_of_dict_of_items:
  "map_of (dict_of_items items) k = map_of (rev items) k"
  by (simp add: dict_of_items_def map_of_fold_update_rev split: option.splits)

lemma class_attribute_is_descriptor:
  assumes "BaseIncusMeta_new mcs name bases attrs = Inr T"
    and "annotation_names attrs = Inr names"
    and "n \<in> set names" and "\<not> startswith_underscore n"
  shows "map_of (cls_dict T) n = Some (Value (PyField \<lparr>cls = mcs, field_name = n\<rparr>))"
proof -
  let ?F = "\<lambda>a. Value (PyField \<lparr>cls = mcs, field_name = a\<rparr>)"
  let ?ns = "filter (\<lambda>a. \<not> startswith_underscore a) names"
  from assms(1) obtain names' where "annotation_names attrs = Inr names'"
    and d: "cls_dict T = dict_of_items
       (filter (\<lambda>(a, v). \<not> (callable v \<or> is_property v) \<and> startswith_underscore a) attrs
        @ filter (\<lambda>(a, v). callable v \<or> is_property v) attrs
        @ map (\<lambda>a. (a, Value (PyField \<lparr>cls = mcs, field_name = a\<rparr>)))
             (filter (\<lambda>a. \<not> startswith_underscore a) names'))"
    by (rule BaseIncusMeta_new_Inr)
  with assms(2) have names: "names' = names" by simp
  have "map_of (rev (map (\<lambda>a. (a, ?F a)) ?ns)) n = map_of (map (\<lambda>a. (a, ?F a)) (rev ?ns)) n"
    by (simp add: rev_map)
  also have "\<dots> = Some (?F n)"
    using assms(3,4) by (simp add: map_of_map_restrict)
  finally show ?thesis
    unfolding d names by (simp add: map_of_dict_of_items)
qed

text \<open>What the default-field mapping of a built type holds: the sentinel for an annotated
  public name with no member in the class body, the value of a public member that is
  neither callable nor a property, and public names only.\<close>

lemma required_field_recorded_unset:
  assumes "BaseIncusMeta_new mcs name bases attrs = Inr T"
    and "annotation_names attrs = Inr names"
    and "n \<in> set names" and "\<not> startswith_underscore n"
    and "map_of attrs n = None"
  shows "map_of (cls_model_fields T) n = Some (Value Unset)"
proof -
  let ?pub = "filter (\<lambda>(a, v). \<not> (callable v \<or> is_property v) \<and> \<not> startswith_underscore a) attrs"
  from assms(1) obtain names' where "annotation_names attrs = Inr names'"
    and mf: "cls_model_fields T = fold (\<lambda>a. setdefault a (Value Unset))
        (filter (\<lambda>a. \<not> startswith_underscore a) names') (fold (\<lambda>(k, v). AList.update k v) ?pub [])"
    by (rule BaseIncusMeta_new_Inr)
  with assms(2) have names: "names' = names" by simp
  from assms(5) have "n \<notin> fst ` set attrs" by (simp add: map_of_eq_None_iff)
  then have "n \<notin> fst ` set ?pub" by auto
  then have "map_of (fold (\<lambda>(k, v). AList.update k v) ?pub []) n = None"
    by (simp add: map_of_fold_update_other)
  with assms(3,4) show ?thesis
    unfolding mf names by (simp add: map_of_fold_setdefault)
qed

lemma default_recorded:
  assumes "BaseIncusMeta_new mcs name bases attrs = Inr T"
    and "distinct (map fst attrs)"
    and "(n, v) \<in> set attrs"
    and "\<not> callable v" and "\<not> is_property v" and "\<not> startswith_underscore n"
  shows "map_of (cls_model_fields T) n = Some v"
proof -
  let ?pub = "filter (\<lambda>(a, v). \<not> (callable v \<or> is_property v) \<and> \<not> startswith_underscore a) attrs"
  from assms(1) obtain names' where
    mf: "cls_model_fields T = fold (\<lambda>a. setdefault a (Value Unset))
        (filter (\<lambda>a. \<not> startswith_underscore a) names') (fold (\<lambda>(k, v). AList.update k v) ?pub [])"
    by (rule BaseIncusMeta_new_Inr)
  have dp: "distinct (map fst ?pub)"
    using assms(2) by (simp add: distinct_map_filter)
  have "(n, v) \<in> set ?pub" using assms(3,4,5,6) by simp
  with dp have "map_of ?pub n = Some v" by simp
  then have "map_of (fold (\<lambda>(k, v). AList.update k v) ?pub []) n = Some v"
    using map_of_fold_update [OF dp, of "[]" n] by simp
  then show ?thesis
    unfolding mf by (simp add: map_of_fold_setdefault)
qed

lemma declared_fields_public:
  assumes "BaseIncusMeta_new mcs name bases attrs = Inr T"
    and "map_of (cls_model_fields T) n \<noteq> None"
  shows "\<not> startswith_underscore n"
proof -
  let ?pub = "filter (\<lambda>(a, v). \<not> (callable v \<or> is_property v) \<and> \<not> startswith_underscore a) attrs"
  from assms(1) obtain names' where
    mf: "cls_model_fields T = fold (\<lambda>a. setdefault a (Value Unset))
        (filter (\<lambda>a. \<not> startswith_underscore a) names') (fold (\<lambda>(k, v). AList.update k v) ?pub [])"
    by (rule BaseIncusMeta_new_Inr)
  show ?thesis
  proof
    assume u: "startswith_underscore n"
    then have "n \<notin> fst ` set ?pub" by auto
    then have "map_of (fold (\<lambda>(k, v). AList.update k v) ?pub []) n = None"
      by (simp add: map_of_fold_update_other)
    with u have "map_of (cls_model_fields T) n = None"
      unfolding mf by (simp add: map_of_fold_setdefault)
    with assms(2) show False by simp
  qed
qed

text \<open>
  Claim C10, as amended. A public member of the class body that is neither callable nor a
  property and is not annotated gets no descriptor in the dict of the new type; its
  value is recorded in the default-field mapping, and it is assigned under that name
  onto every instance that reaches the post-construction hook and whose keyword
  arguments do not supply that name; for a type that keeps the metaclass's hook, that
  instance is the constructed one.
\<close>

theorem unannotated_public_attribute:
  assumes "BaseIncusMeta_new mcs name bases attrs = Inr T"
    and "distinct (map fst attrs)"
    and "(x, v) \<in> set attrs"
    and "\<not> callable v" and "\<not> is_property v" and "\<not> startswith_underscore x"
    and "annotation_names attrs = Inr names" and "x \<notin> set names"
  shows "map_of (cls_dict T) x = None
      \<and> map_of (cls_model_fields T) x = Some v
      \<and> (\<forall>self kwargs self' kwargs'.
            init_body T self kwargs = Inr (self', kwargs') \<and> map_of kwargs x = None \<longrightarrow>
            map_of self' x = Some v)
      \<and> (\<forall>invoke self kwargs self' kwargs'.
            init_body T self kwargs = Inr (self', kwargs') \<and> cls_post_init T = None \<longrightarrow>
            BaseIncusMeta_init invoke T self kwargs = Inr self')"
proof -
  let ?pub = "filter (\<lambda>(a, v). \<not> (callable v \<or> is_property v) \<and> \<not> startswith_underscore a) attrs"
  let ?sec = "filter (\<lambda>(a, v). \<not> (callable v \<or> is_property v) \<and> startswith_underscore a) attrs"
  let ?met = "filter (\<lambda>(a, v). callable v \<or> is_property v) attrs"
  let ?ns = "filter (\<lambda>a. \<not> startswith_underscore a) names"
  from assms(1) obtain names' where "annotation_names attrs = Inr names'"
    and mf': "cls_model_fields T = fold (\<lambda>a. setdefault a (Value Unset))
        (filter (\<lambda>a. \<not> startswith_underscore a) names') (fold (\<lambda>(k, v). AList.update k v) ?pub [])"
    and d': "cls_dict T = dict_of_items (?sec @ ?met
        @ map (\<lambda>a. (a, Value (PyField \<lparr>cls = mcs, field_name = a\<rparr>)))
             (filter (\<lambda>a. \<not> startswith_underscore a) names'))"
    by (rule BaseIncusMeta_new_Inr)
  with assms(7) have names: "names' = names" by simp
  note mf = mf' [unfolded names] and d = d' [unfolded names]
  have attr: "map_of attrs x = Some v"
    using assms(2,3) by simp
  have other: "w = v" if "(x, w) \<in> set attrs" for w
    using that attr assms(2) by simp
  have "x \<notin> fst ` set ?sec" using assms(6) by auto
  moreover have "x \<notin> fst ` set ?met" using other assms(4,5) by auto
  moreover have "x \<notin> fst ` set (map (\<lambda>a. (a, Value (PyField \<lparr>cls = mcs, field_name = a\<rparr>))) ?ns)"
    using assms(8) by auto
  ultimately have "x \<notin> fst ` set (cls_dict T)"
    unfolding d keys_dict_of_items by auto
  then have nodesc: "map_of (cls_dict T) x = None"
    by (simp add: map_of_eq_None_iff)
  have dp: "distinct (map fst ?pub)"
    using assms(2) by (simp add: distinct_map_filter)
  have "(x, v) \<in> set ?pub" using assms(3,4,5,6) by simp
  with dp have "map_of ?pub x = Some v" by simp
  then have "map_of (fold (\<lambda>(k, v). AList.update k v) ?pub []) x = Some v"
    using map_of_fold_update [OF dp, of "[]" x] by simp
  then have recorded: "map_of (cls_model_fields T) x = Some v"
    unfolding mf by (simp add: map_of_fold_setdefault)
  have dm: "distinct (map fst (cls_model_fields T))"
    using assms(1) by (rule distinct_model_fields)
  have assigned: "map_of self' x = Some v"
    if b: "init_body T self kwargs = Inr (self', kwargs')" and k: "map_of kwargs x = None"
    for self kwargs self' kwargs'
  proof -
    from recorded have "map_of (cls_model_fields T) x \<noteq> None" by simp
    from init_body_declared(1) [OF b dm this] init_body_Inr(1) [OF b] k recorded
    show ?thesis by (simp add: map_of_dict_or_default)
  qed
  show ?thesis
    using nodesc recorded assigned default_hook by blast
qed

section \<open>The builder and the constructor on the example classes\<close>

lemmas builder_defs =
  BaseIncusMeta_new_def annotation_names_def dict_of_items_def setdefault_def callable_def
  is_property_def startswith_underscore_def Let_def

lemmas constructor_defs =
  instantiate_def BaseIncusMeta_init_def init_body_def dict_or_def call_post_init_def
  BaseIncusMeta_post_init_def Let_def

lemma new_example_M:
  "BaseIncusMeta_new BaseIncusMeta (class_name example_M) (class_mro example_M)
     (class_vars example_M) = Inr example_M_model"
  by (simp add: example_M_def example_M_model_def builder_defs)

lemma new_example_TestClass:
  "BaseIncusMeta_new BaseIncusMeta (class_name example_TestClass) (class_mro example_TestClass)
     (class_vars example_TestClass) = Inr example_TestClass_model"
  by (simp add: example_TestClass_def example_TestClass_model_def builder_defs)

lemma new_example_K:
  "BaseIncusMeta_new BaseIncusMeta (class_name example_K) (class_mro example_K)
     (class_vars example_K) = Inr example_K_model"
  by (simp add: example_K_def example_K_model_def builder_defs)

text \<open>
  Claim C5. The class-level attribute of an annotated public field of a model type \<open>T\<close> is
  a descriptor bound to \<open>T\<close>, so that its \<^verbatim>\<open>repr\<close> is the name of \<open>T\<close>, a dot and the field
  name. The builder binds it to the first argument of \<^verbatim>\<open>__new__\<close>, which is the metaclass
  (\<open>class_attribute_is_descriptor\<close>): for the model \<^verbatim>\<open>M\<close>, \<^verbatim>\<open>repr(M.a)\<close> is
  \<^verbatim>\<open>BaseIncusMeta.a\<close> and not \<^verbatim>\<open>M.a\<close>.
\<close>

theorem descriptor_bound_to_metaclass:
  "incus_model example_M = Inr example_M_model
   \<and> map_of (cls_dict example_M_model) ''a'' =
       Some (Value (PyField \<lparr>cls = BaseIncusMeta, field_name = ''a''\<rparr>))
   \<and> repr_ModelField \<lparr>cls = BaseIncusMeta, field_name = ''a''\<rparr> = ''BaseIncusMeta.a''
   \<and> repr_ModelField \<lparr>cls = BaseIncusMeta, field_name = ''a''\<rparr> \<noteq> cls_name example_M_model @ ''.a''"
  using new_example_M
  by (simp add: incus_model_def example_M_model_def repr_ModelField_def BaseIncusMeta_def)

text \<open>\<^verbatim>\<open>M()\<close> raises, and the message names \<^verbatim>\<open>a\<close>.\<close>

theorem missing_fields_raise_witness:
  "map_of (cls_model_fields example_M_model) ''a'' = Some (Value Unset)
   \<and> ''a'' \<notin> fst ` set ([] :: dict)
   \<and> instantiate example_invoke example_M_model [] =
       Inl (PyIncusException (missing_message [''a'']))
   \<and> sublist (repr_str ''a'') (missing_message [''a''])"
proof -
  have h1: "map_of (cls_model_fields example_M_model) ''a'' = Some (Value Unset)"
    by (simp add: example_M_model_def)
  have h2: "''a'' \<notin> fst ` set ([] :: dict)"
    by simp
  have e: "instantiate example_invoke example_M_model [] =
       Inl (PyIncusException (missing_message [''a'']))"
    by (simp add: example_M_model_def constructor_defs)
  from missing_fields_raise [OF h1 h2, of "[]" example_invoke example_invoke]
  obtain unsets where
    "BaseIncusMeta_init example_invoke example_M_model [] [] =
       Inl (PyIncusException (missing_message unsets))"
    and "''a'' \<in> set unsets"
    and "\<forall>k \<in> set unsets. sublist (repr_str k) (missing_message unsets)"
    by blast
  with e have "sublist (repr_str ''a'') (missing_message [''a''])"
    by (auto simp: instantiate_def)
  with h1 h2 e show ?thesis by simp
qed

text \<open>\<^verbatim>\<open>TestClass(a=5, _b=7)\<close>: the hook receives \<^verbatim>\<open>_b\<close>, which was not assigned.\<close>

theorem post_init_receives_merged_kwargs_witness:
  "BaseIncusMeta_init example_invoke example_TestClass_model []
       [(''a'', Value (Scalar (PyInt 5))), (''_b'', Value (Scalar (PyInt 7)))] =
     Inr [(''a'', Value (Scalar (PyInt 7))), (''_b'', Value (Scalar (PyInt 9)))]
   \<and> distinct (map fst [(''a'', Value (Scalar (PyInt 5))), (''_b'', Value (Scalar (PyInt 7)))])
   \<and> init_body example_TestClass_model []
       [(''a'', Value (Scalar (PyInt 5))), (''_b'', Value (Scalar (PyInt 7)))] =
     Inr ([(''a'', Value (Scalar (PyInt 5)))],
          [(''a'', Value (Scalar (PyInt 5))), (''_b'', Value (Scalar (PyInt 7)))])
   \<and> call_post_init example_invoke example_TestClass_model [(''a'', Value (Scalar (PyInt 5)))]
       [(''a'', Value (Scalar (PyInt 5))), (''_b'', Value (Scalar (PyInt 7)))] =
     Inr [(''a'', Value (Scalar (PyInt 7))), (''_b'', Value (Scalar (PyInt 9)))]"
proof -
  let ?kw = "[(''a'', Value (Scalar (PyInt 5))), (''_b'', Value (Scalar (PyInt 7)))]"
  have h1: "BaseIncusMeta_init example_invoke example_TestClass_model [] ?kw =
     Inr [(''a'', Value (Scalar (PyInt 7))), (''_b'', Value (Scalar (PyInt 9)))]"
    by (simp add: example_TestClass_model_def example_invoke_def constructor_defs)
  have h2: "distinct (map fst ?kw)"
    by simp
  have m: "dict_or (cls_model_fields example_TestClass_model) ?kw = ?kw"
    by (simp add: example_TestClass_model_def dict_or_def)
  from post_init_receives_merged_kwargs [OF h1 h2]
  obtain self' where b: "init_body example_TestClass_model [] ?kw = Inr (self', ?kw)"
    and c: "call_post_init example_invoke example_TestClass_model self' ?kw =
      Inr [(''a'', Value (Scalar (PyInt 7))), (''_b'', Value (Scalar (PyInt 9)))]"
    unfolding m by blast
  have "init_body example_TestClass_model [] ?kw = Inr ([(''a'', Value (Scalar (PyInt 5)))], ?kw)"
    by (simp add: example_TestClass_model_def init_body_def dict_or_def Let_def)
  with b have "self' = [(''a'', Value (Scalar (PyInt 5)))]" by simp
  with h1 h2 b c show ?thesis by simp
qed

text \<open>\<^verbatim>\<open>M(a=5)\<close> has \<^verbatim>\<open>a == 5\<close> and \<^verbatim>\<open>b == "x"\<close>.\<close>

theorem constructed_instance_fields_witness:
  "BaseIncusMeta_new BaseIncusMeta (class_name example_M) (class_mro example_M)
     (class_vars example_M) = Inr example_M_model
   \<and> distinct (map fst [(''a'', Value (Scalar (PyInt 5)))])
   \<and> init_body example_M_model [] [(''a'', Value (Scalar (PyInt 5)))] =
       Inr ([(''b'', Value (Scalar (PyStr ''x''))), (''a'', Value (Scalar (PyInt 5)))],
            [(''b'', Value (Scalar (PyStr ''x''))), (''a'', Value (Scalar (PyInt 5)))])
   \<and> map_of [(''b'', Value (Scalar (PyStr ''x''))), (''a'', Value (Scalar (PyInt 5)))] ''a'' =
       Some (Value (Scalar (PyInt 5)))
   \<and> map_of [(''b'', Value (Scalar (PyStr ''x''))), (''a'', Value (Scalar (PyInt 5)))] ''b'' =
       Some (Value (Scalar (PyStr ''x'')))
   \<and> cls_post_init example_M_model = None
   \<and> instantiate example_invoke example_M_model [(''a'', Value (Scalar (PyInt 5)))] =
       Inr [(''b'', Value (Scalar (PyStr ''x''))), (''a'', Value (Scalar (PyInt 5)))]"
proof -
  let ?kw = "[(''a'', Value (Scalar (PyInt 5)))]"
  let ?s = "[(''b'', Value (Scalar (PyStr ''x''))), (''a'', Value (Scalar (PyInt 5)))]"
  have h2: "distinct (map fst ?kw)" by simp
  have h3: "init_body example_M_model [] ?kw = Inr (?s, ?s)"
    by (simp add: example_M_model_def init_body_def dict_or_def Let_def)
  have p: "cls_post_init example_M_model = None"
    by (simp add: example_M_model_def)
  from constructed_instance_fields [OF new_example_M h2 h3, of example_invoke] p
  have "BaseIncusMeta_init example_invoke example_M_model [] ?kw = Inr ?s"
    by blast
  with new_example_M h2 h3 p show ?thesis
    by (simp add: instantiate_def)
qed

text \<open>\<^verbatim>\<open>TestClass(a=5, _b=7)\<close> succeeds; its hook leaves \<^verbatim>\<open>a\<close> at 7, not at the supplied 5,
  and creates the attribute \<^verbatim>\<open>_b\<close>, whose key is not a declared field.\<close>

theorem hook_changes_fields_counterexample:
  "incus_model example_TestClass = Inr example_TestClass_model
   \<and> map_of (cls_model_fields example_TestClass_model) ''a'' \<noteq> None
   \<and> map_of (cls_model_fields example_TestClass_model) ''_b'' = None
   \<and> instantiate example_invoke example_TestClass_model
       [(''a'', Value (Scalar (PyInt 5))), (''_b'', Value (Scalar (PyInt 7)))] =
     Inr [(''a'', Value (Scalar (PyInt 7))), (''_b'', Value (Scalar (PyInt 9)))]
   \<and> map_of [(''a'', Value (Scalar (PyInt 7))), (''_b'', Value (Scalar (PyInt 9)))] ''a'' \<noteq>
       Some (Value (Scalar (PyInt 5)))
   \<and> map_of [(''a'', Value (Scalar (PyInt 7))), (''_b'', Value (Scalar (PyInt 9)))] ''_b'' \<noteq> None"
  using new_example_TestClass
  by (simp add: incus_model_def example_TestClass_model_def example_invoke_def constructor_defs)

text \<open>\<^verbatim>\<open>K()\<close> has \<^verbatim>\<open>x == 5\<close>.\<close>

theorem unannotated_public_attribute_witness:
  "BaseIncusMeta_new BaseIncusMeta (class_name example_K) (class_mro example_K)
     (class_vars example_K) = Inr example_K_model
   \<and> distinct (map fst (class_vars example_K))
   \<and> (''x'', Value (Scalar (PyInt 5))) \<in> set (class_vars example_K)
   \<and> \<not> callable (Value (Scalar (PyInt 5))) \<and> \<not> is_property (Value (Scalar (PyInt 5)))
   \<and> \<not> startswith_underscore ''x''
   \<and> annotation_names (class_vars example_K) = Inr [] \<and> ''x'' \<notin> set ([] :: string list)
   \<and> map_of (cls_dict example_K_model) ''x'' = None
   \<and> map_of (cls_model_fields example_K_model) ''x'' = Some (Value (Scalar (PyInt 5)))
   \<and> init_body example_K_model [] [] =
       Inr ([(''x'', Value (Scalar (PyInt 5)))], [(''x'', Value (Scalar (PyInt 5)))])
   \<and> instantiate example_invoke example_K_model [] = Inr [(''x'', Value (Scalar (PyInt 5)))]"
proof -
  have h2: "distinct (map fst (class_vars example_K))"
    by (simp add: example_K_def)
  have h3: "(''x'', Value (Scalar (PyInt 5))) \<in> set (class_vars example_K)"
    by (simp add: example_K_def)
  have h4: "\<not> callable (Value (Scalar (PyInt 5)))" and h5: "\<not> is_property (Value (Scalar (PyInt 5)))"
    by (simp_all add: callable_def is_property_def)
  have h6: "\<not> startswith_underscore ''x''"
    by (simp add: startswith_underscore_def)
  have h7: "annotation_names (class_vars example_K) = Inr []"
    by (simp add: example_K_def annotation_names_def)
  have h8: "''x'' \<notin> set ([] :: string list)" by simp
  have b: "init_body example_K_model [] [] =
       Inr ([(''x'', Value (Scalar (PyInt 5)))], [(''x'', Value (Scalar (PyInt 5)))])"
    by (simp add: example_K_model_def init_body_def dict_or_def Let_def)
  have p: "cls_post_init example_K_model = None"
    by (simp add: example_K_model_def)
  note t = unannotated_public_attribute [OF new_example_K h2 h3 h4 h5 h6 h7 h8]
  from t have c1: "map_of (cls_dict example_K_model) ''x'' = None"
    and c2: "map_of (cls_model_fields example_K_model) ''x'' = Some (Value (Scalar (PyInt 5)))"
    by blast+
  from t b p have "BaseIncusMeta_init example_invoke example_K_model [] [] =
      Inr [(''x'', Value (Scalar (PyInt 5)))]"
    by blast
  with new_example_K h2 h3 h4 h5 h6 h7 h8 c1 c2 b show ?thesis
    by (simp add: instantiate_def)
qed

text \<open>\<^verbatim>\<open>K(x=7)\<close> succeeds and has \<^verbatim>\<open>x == 7\<close>: the value 5 of the class body is not
  assigned.\<close>

theorem supplied_value_replaces_default_counterexample:
  "incus_model example_K = Inr example_K_model
   \<and> map_of (class_vars example_K) ''x'' = Some (Value (Scalar (PyInt 5)))
   \<and> instantiate example_invoke example_K_model [(''x'', Value (Scalar (PyInt 7)))] =
       Inr [(''x'', Value (Scalar (PyInt 7)))]
   \<and> map_of [(''x'', Value (Scalar (PyInt 7)))] ''x'' \<noteq> Some (Value (Scalar (PyInt 5)))"
  using new_example_K
  by (simp add: incus_model_def example_K_def example_K_model_def constructor_defs)

end
